theory Spec2Isabelle
  imports Complex_Main
begin

section \<open>Signal normalizer (WavRenderer helpers)\<close>

text \<open>
  The renderer module works on \<^verbatim>\<open>Float32Array\<close> buffers and JavaScript numbers.
  A buffer is a \<open>real list\<close>: its elements are finite numbers, and arithmetic on them is
  exact (rounding to binary floating point is not part of this development).
  A JavaScript value that is not a finite number (\<^verbatim>\<open>NaN\<close>, which is also what
  arithmetic on \<^verbatim>\<open>undefined\<close> gives, or an infinity from a division by zero) is
  \<open>None\<close> in the type \<open>real option\<close>.
\<close>

subsection \<open>normalizeFrequencyData\<close>

definition minDb :: real where
  "minDb = -100"

definition maxDb :: real where
  "maxDb = -30"

text \<open>
  The loop body of \<^verbatim>\<open>normalizeFrequencyData\<close>:
  \<^verbatim>\<open>let db = Math.max(minDb, Math.min(maxDb, data[i]));
normalized[i] = Math.pow((db - minDb) / (maxDb - minDb), 2);\<close>
\<close>

definition normalizeSample :: "real \<Rightarrow> real" where
  "normalizeSample x =
     (let db = max minDb (min maxDb x)
      in ((db - minDb) / (maxDb - minDb)) ^ 2)"

text \<open>The loop writes one output per input, at the same position.\<close>

definition normalizeFrequencyData :: "real list \<Rightarrow> real list" where
  "normalizeFrequencyData data = map normalizeSample data"

subsection \<open>normalizeArray\<close>

text \<open>
  JavaScript array access as the function uses it: reading past the end gives
  \<^verbatim>\<open>undefined\<close>, writing past the end extends the array, leaving holes.
\<close>

definition js_get :: "'a option list \<Rightarrow> nat \<Rightarrow> 'a option" where
  "js_get xs i = (if i < length xs then xs ! i else None)"

definition js_set :: "'a option list \<Rightarrow> nat \<Rightarrow> 'a option \<Rightarrow> 'a option list" where
  "js_set xs i v =
     (if i < length xs then xs[i := v]
      else xs @ replicate (i - length xs) None @ [v])"

text \<open>\<^verbatim>\<open>data[k]\<close> for an integer \<open>k\<close>: \<^verbatim>\<open>undefined\<close> outside the buffer.\<close>

definition data_at :: "real list \<Rightarrow> int \<Rightarrow> real option" where
  "data_at data k =
     (if 0 \<le> k \<and> k < int (length data) then Some (data ! nat k) else None)"

text \<open>
  \<^verbatim>\<open>result[i] / count[i]\<close>: a division by a zero count is \<^verbatim>\<open>NaN\<close> or an
  infinity, and anything that is not a number stays so.
\<close>

definition js_div :: "real option \<Rightarrow> nat option \<Rightarrow> real option" where
  "js_div a c =
     (case (a, c) of
        (Some x, Some k) \<Rightarrow> if k = 0 then None else Some (x / real k)
      | _ \<Rightarrow> None)"

text \<open>\<^verbatim>\<open>const index = Math.floor(i * (m / n));\<close>\<close>

definition bucket_index :: "nat \<Rightarrow> nat \<Rightarrow> nat \<Rightarrow> nat" where
  "bucket_index i m n = nat \<lfloor>real i * (real m / real n)\<rfloor>"

text \<open>
  For the proofs: the samples among the first \<open>k\<close> whose bucket, by exact division, is
  \<open>b\<close> (of \<open>n\<close> samples and \<open>m\<close> buckets).
\<close>

definition members :: "nat \<Rightarrow> nat \<Rightarrow> nat \<Rightarrow> nat \<Rightarrow> nat set" where
  "members m n k b = {i. i < k \<and> i * m div n = b}"

text \<open>
  One round of the downsampling loop, on the pair of arrays \<^verbatim>\<open>result\<close> and
  \<^verbatim>\<open>count\<close>:
  \<^verbatim>\<open>if (downsamplePeaks) { result[index] = Math.max(result[index], Math.abs(data[i])); }
else { result[index] += Math.abs(data[i]); }
count[index]++;\<close>
\<close>

definition downsample_step ::
  "real list \<Rightarrow> nat \<Rightarrow> bool \<Rightarrow> nat \<Rightarrow>
   real option list \<times> nat option list \<Rightarrow> real option list \<times> nat option list" where
  "downsample_step data m downsamplePeaks i = (\<lambda>(result, count).
     let index = bucket_index i m (length data);
         a = \<bar>data ! i\<bar>;
         r = (if downsamplePeaks then map_option (\<lambda>x. max x a) (js_get result index)
              else map_option (\<lambda>x. x + a) (js_get result index))
     in (js_set result index r, js_set count index (map_option Suc (js_get count index))))"

text \<open>
  One round of the interpolation loop (\<open>m > n\<close>):
  \<^verbatim>\<open>const index = (i * (n - 1)) / (m - 1);
const low = Math.floor(index); const high = Math.ceil(index); const t = index - low;
if (high >= n) { result[i] = data[n - 1]; }
else { result[i] = data[low] * (1 - t) + data[high] * t; }\<close>
  With \<open>m = 1\<close> the quotient is \<open>0 / 0\<close>, not a number, and so is the result.
\<close>

definition interpolate :: "real list \<Rightarrow> nat \<Rightarrow> nat \<Rightarrow> real option" where
  "interpolate data m i =
     (let n = length data in
      if real m - 1 = 0 then None
      else
        let index = (real i * (real n - 1)) / (real m - 1);
            low = \<lfloor>index\<rfloor>;
            high = \<lceil>index\<rceil>;
            t = index - of_int low
        in if high \<ge> int n then data_at data (int n - 1)
           else (case (data_at data low, data_at data high) of
                   (Some a, Some b) \<Rightarrow> Some (a * (1 - t) + b * t)
                 | _ \<Rightarrow> None))"

text \<open>The body of \<^verbatim>\<open>normalizeArray\<close> between the two cache accesses.\<close>

definition normalizeArray_compute :: "real list \<Rightarrow> nat \<Rightarrow> bool \<Rightarrow> real option list" where
  "normalizeArray_compute data m downsamplePeaks =
     (let n = length data in
      if m \<le> n then
        let (result, count) =
              fold (downsample_step data m downsamplePeaks) [0..<n]
                (replicate m (Some 0), replicate m (Some 0))
        in if \<not> downsamplePeaks
           then map (\<lambda>i. js_div (js_get result i) (js_get count i)) [0..<length result]
           else result
      else map (interpolate data m) [0..<m])"

text \<open>
  The module-level \<^verbatim>\<open>WeakMap\<close> is keyed by the buffer object, then by
  \<^verbatim>\<open>m.toString()\<close> and \<^verbatim>\<open>downsamplePeaks.toString()\<close>. Here a buffer object
  is named by a number, and the cache is a map from the three keys to a stored result.
  The function returns its result and the cache it leaves behind.
\<close>

type_synonym cache = "nat \<times> nat \<times> bool \<rightharpoonup> real option list"

definition normalizeArray ::
  "cache \<Rightarrow> nat \<Rightarrow> real list \<Rightarrow> nat \<Rightarrow> bool \<Rightarrow> bool \<Rightarrow> real option list \<times> cache" where
  "normalizeArray dataMap ref data m downsamplePeaks memoize =
     (if memoize then
        (case dataMap (ref, m, downsamplePeaks) of
           Some hit \<Rightarrow> (hit, dataMap)
         | None \<Rightarrow>
             let result = normalizeArray_compute data m downsamplePeaks
             in (result, dataMap((ref, m, downsamplePeaks) \<mapsto> result)))
      else (normalizeArray_compute data m downsamplePeaks, dataMap))"

section \<open>Realtime session (useRealtimeWebRTC) and the console page\<close>

subsection \<open>Values and errors\<close>

text \<open>
  Protocol events are JSON values. \<^verbatim>\<open>JSON.parse\<close> is the engine's function, not the
  repository's: the message listener takes it as a parameter of type
  \<open>string \<Rightarrow> json option\<close>, \<open>None\<close> where it throws a \<^verbatim>\<open>SyntaxError\<close>.
\<close>

datatype json =
    JNull
  | JBool bool
  | JNum real
  | JStr string
  | JArr "json list"
  | JObj "(string \<times> json) list"

text \<open>What a call can throw, or an awaited promise reject with.\<close>

datatype error =
    SyntaxError
  | TypeError
  | DOMException
  | Error string

text \<open>
  Property access \<^verbatim>\<open>x.k\<close> on a parsed value, for a key \<open>k\<close> that is no built-in
  property of strings, numbers, booleans or arrays: \<^verbatim>\<open>null.k\<close> throws, an object
  gives its member or \<^verbatim>\<open>undefined\<close> (\<open>None\<close>), any other value gives
  \<^verbatim>\<open>undefined\<close>.
\<close>

fun js_member :: "json \<Rightarrow> string \<Rightarrow> error + json option" where
  "js_member JNull k = Inl TypeError"
| "js_member (JObj kvs) k = Inr (map_of kvs k)"
| "js_member v k = Inr None"

text \<open>\<^verbatim>\<open>data.client_secret.value\<close>; reading a member of \<^verbatim>\<open>undefined\<close> throws.\<close>

definition client_secret_value :: "json \<Rightarrow> error + json option" where
  "client_secret_value data =
     (case js_member data ''client_secret'' of
        Inl e \<Rightarrow> Inl e
      | Inr None \<Rightarrow> Inl TypeError
      | Inr (Some secret) \<Rightarrow> js_member secret ''value'')"

subsection \<open>State\<close>

datatype source = client | server

record RealtimeEvent =
  time :: string
  source :: source
  event :: json

datatype readyState = Connecting | Open | Closing | Closed

text \<open>
  The browser objects the hook holds handles to. A data channel remembers the peer
  connection that created it and the messages handed to \<^verbatim>\<open>send\<close> (each the value
  that was serialised); a peer connection remembers whether \<^verbatim>\<open>close\<close> was called,
  the tracks added to it and the two session descriptions; a media track has its
  \<^verbatim>\<open>enabled\<close> flag.
\<close>

record RTCDataChannel =
  label :: string
  owner :: nat
  readyState :: readyState
  sent :: "json list"

record RTCPeerConnection =
  pc_closed :: bool
  senders :: "nat list"
  localDescription :: "string option"
  remoteDescription :: "string option"

record MediaStreamTrack =
  enabled :: bool

text \<open>
  The state the hook and the page keep between calls: the two refs and the two state
  cells of \<^verbatim>\<open>useRealtimeWebRTC\<close>, the page's \<^verbatim>\<open>realtimeEvents\<close> and
  \<^verbatim>\<open>memoryKv\<close>, and the browser objects created so far (a handle is an index into
  the list of its kind).
\<close>

record world =
  peerConnectionRef :: "nat option"
  dataChannelRef :: "nat option"
  isConnected :: bool
  isMuted :: bool
  realtimeEvents :: "RealtimeEvent list"
  memoryKv :: "string \<rightharpoonup> json"
  peerConnections :: "RTCPeerConnection list"
  dataChannels :: "RTCDataChannel list"
  tracks :: "MediaStreamTrack list"

text \<open>
  The state after the first render: \<^verbatim>\<open>useRef(null)\<close>, \<^verbatim>\<open>useState(false)\<close>,
  no events, and the page's initial memory (\<open>today\<close> is the date the page was opened).
\<close>

definition initial :: "string \<Rightarrow> world" where
  "initial today =
     \<lparr>peerConnectionRef = None, dataChannelRef = None, isConnected = False, isMuted = False,
      realtimeEvents = [],
      memoryKv = [''userName'' \<mapsto> JStr ''swyx'', ''todaysDate'' \<mapsto> JStr today],
      peerConnections = [], dataChannels = [], tracks = []\<rparr>"

subsection \<open>Browser operations\<close>

text \<open>\<^verbatim>\<open>new RTCPeerConnection()\<close>: a fresh connection and its handle.\<close>

definition new_RTCPeerConnection :: "world \<Rightarrow> nat \<times> world" where
  "new_RTCPeerConnection w =
     (length (peerConnections w),
      w\<lparr>peerConnections := peerConnections w @
           [\<lparr>pc_closed = False, senders = [], localDescription = None,
             remoteDescription = None\<rparr>]\<rparr>)"

text \<open>\<^verbatim>\<open>pc.createDataChannel(label)\<close>: a fresh channel, not open yet.\<close>

definition createDataChannel :: "nat \<Rightarrow> string \<Rightarrow> world \<Rightarrow> nat \<times> world" where
  "createDataChannel pc l w =
     (length (dataChannels w),
      w\<lparr>dataChannels := dataChannels w @
           [\<lparr>label = l, owner = pc, readyState = Connecting, sent = []\<rparr>]\<rparr>)"

text \<open>
  \<^verbatim>\<open>getUserMedia\<close> resolved with a stream of \<open>k\<close> tracks, and
  \<^verbatim>\<open>stream.getTracks().forEach(track => pc.addTrack(track, stream))\<close>: the new
  tracks are enabled, as a fresh microphone track is, and become senders of \<open>pc\<close>.
\<close>

definition addTracks :: "nat \<Rightarrow> nat \<Rightarrow> world \<Rightarrow> world" where
  "addTracks pc k w =
     (let ids = [length (tracks w) ..< length (tracks w) + k] in
      w\<lparr>tracks := tracks w @ replicate k \<lparr>enabled = True\<rparr>,
        peerConnections := (peerConnections w)
          [pc := (peerConnections w ! pc)\<lparr>senders := senders (peerConnections w ! pc) @ ids\<rparr>]\<rparr>)"

definition setLocalDescription :: "nat \<Rightarrow> string \<Rightarrow> world \<Rightarrow> world" where
  "setLocalDescription pc sdp w =
     w\<lparr>peerConnections := (peerConnections w)
          [pc := (peerConnections w ! pc)\<lparr>localDescription := Some sdp\<rparr>]\<rparr>"

definition setRemoteDescription :: "nat \<Rightarrow> string \<Rightarrow> world \<Rightarrow> world" where
  "setRemoteDescription pc sdp w =
     w\<lparr>peerConnections := (peerConnections w)
          [pc := (peerConnections w ! pc)\<lparr>remoteDescription := Some sdp\<rparr>]\<rparr>"

text \<open>The channel's \<^verbatim>\<open>readyState\<close>, through a handle.\<close>

definition channel_state :: "world \<Rightarrow> nat \<Rightarrow> readyState option" where
  "channel_state w dc =
     (if dc < length (dataChannels w) then Some (readyState (dataChannels w ! dc)) else None)"

text \<open>The browser's transition of a channel to \<^verbatim>\<open>open\<close> (its \<^verbatim>\<open>open\<close> event).\<close>

definition dc_open :: "nat \<Rightarrow> world \<Rightarrow> world" where
  "dc_open dc w =
     w\<lparr>dataChannels := (dataChannels w)
          [dc := (dataChannels w ! dc)\<lparr>readyState := Open\<rparr>]\<rparr>"

text \<open>\<^verbatim>\<open>dc.send(JSON.stringify(v))\<close> on an open channel.\<close>

definition dc_send :: "nat \<Rightarrow> json \<Rightarrow> world \<Rightarrow> world" where
  "dc_send dc v w =
     w\<lparr>dataChannels := (dataChannels w)
          [dc := (dataChannels w ! dc)\<lparr>sent := sent (dataChannels w ! dc) @ [v]\<rparr>]\<rparr>"

text \<open>\<^verbatim>\<open>dc.close()\<close>.\<close>

definition dc_close :: "nat \<Rightarrow> world \<Rightarrow> world" where
  "dc_close dc w =
     w\<lparr>dataChannels := (dataChannels w)
          [dc := (dataChannels w ! dc)\<lparr>readyState := Closed\<rparr>]\<rparr>"

text \<open>\<^verbatim>\<open>pc.close()\<close>: the connection is closed, and with it the channels it created.\<close>

definition pc_close :: "nat \<Rightarrow> world \<Rightarrow> world" where
  "pc_close pc w =
     w\<lparr>peerConnections := (peerConnections w)
          [pc := (peerConnections w ! pc)\<lparr>pc_closed := True\<rparr>],
       dataChannels := map (\<lambda>c. if owner c = pc then c\<lparr>readyState := Closed\<rparr> else c)
          (dataChannels w)\<rparr>"

text \<open>The transports that were created and not closed.\<close>

definition live_transports :: "world \<Rightarrow> nat" where
  "live_transports w = length (filter (\<lambda>p. \<not> pc_closed p) (peerConnections w))"

subsection \<open>The hook's operations\<close>

text \<open>
  The outcome of a call is the exception that left it, \<open>None\<close> when it returned
  normally, with the state it left behind.
\<close>

type_synonym outcome = "error option \<times> world"

text \<open>
  \<^verbatim>\<open>disconnect\<close> (it is \<^verbatim>\<open>async\<close> but awaits nothing, so it runs to its end
  when called):
  \<^verbatim>\<open>if (dataChannelRef.current) { dataChannelRef.current.close(); }
if (peerConnectionRef.current) { peerConnectionRef.current.close(); }
peerConnectionRef.current = null; dataChannelRef.current = null;
setIsConnected(false);\<close>
\<close>

definition disconnect :: "world \<Rightarrow> world" where
  "disconnect w =
     (let w1 = (case dataChannelRef w of Some dc \<Rightarrow> dc_close dc w | None \<Rightarrow> w);
          w2 = (case peerConnectionRef w1 of Some pc \<Rightarrow> pc_close pc w1 | None \<Rightarrow> w1)
      in w2\<lparr>peerConnectionRef := None, dataChannelRef := None, isConnected := False\<rparr>)"

text \<open>
  \<^verbatim>\<open>sendEvent\<close> (\<open>now\<close> is \<^verbatim>\<open>new Date().toISOString()\<close>):
  \<^verbatim>\<open>if (dataChannelRef.current?.readyState === "open") {
  dataChannelRef.current.send(JSON.stringify(event));
  setRealtimeEvents(prev => [...prev, { time: ..., source: 'client', event }]);
}\<close>
\<close>

definition sendEvent :: "string \<Rightarrow> json \<Rightarrow> world \<Rightarrow> outcome" where
  "sendEvent now ev w =
     (case dataChannelRef w of
        None \<Rightarrow> (None, w)
      | Some dc \<Rightarrow>
          if channel_state w dc = Some Open
          then (None, (dc_send dc ev w)\<lparr>realtimeEvents := realtimeEvents w @
                  [\<lparr>time = now, source = client, event = ev\<rparr>]\<rparr>)
          else (None, w))"

text \<open>The test of \<^verbatim>\<open>sendEvent\<close>, on its own: whether \<^verbatim>\<open>dataChannelRef.current?.readyState === "open"\<close> holds.\<close>

definition channel_is_open :: "world \<Rightarrow> bool" where
  "channel_is_open w =
     (case dataChannelRef w of None \<Rightarrow> False | Some dc \<Rightarrow> channel_state w dc = Some Open)"

text \<open>\<^verbatim>\<open>setIsMuted\<close> is the setter of \<^verbatim>\<open>useState(false)\<close>; the hook returns it as it is.\<close>

definition setIsMuted :: "bool \<Rightarrow> world \<Rightarrow> world" where
  "setIsMuted b w = w\<lparr>isMuted := b\<rparr>"

text \<open>
  The listener \<^verbatim>\<open>connect\<close> attaches to the data channel:
  \<^verbatim>\<open>dc.addEventListener("message", (e) => {
  const event = JSON.parse(e.data);
  setRealtimeEvents(prev => [...prev, { time: ..., source: 'server', event }]);
});\<close>
\<close>

definition onmessage :: "(string \<Rightarrow> json option) \<Rightarrow> string \<Rightarrow> string \<Rightarrow> world \<Rightarrow> outcome" where
  "onmessage JSON_parse now data w =
     (case JSON_parse data of
        None \<Rightarrow> (Some SyntaxError, w)
      | Some ev \<Rightarrow>
          (None, w\<lparr>realtimeEvents := realtimeEvents w @
                  [\<lparr>time = now, source = server, event = ev\<rparr>]\<rparr>))"

subsection \<open>Tools\<close>

text \<open>
  A registered tool is \<^verbatim>\<open>{ schema, fn }\<close>. The hook reads \<^verbatim>\<open>schema\<close> only, when
  it builds the \<^verbatim>\<open>session.update\<close> message; no line of the hook calls \<^verbatim>\<open>fn\<close>.
\<close>

record tool =
  schema :: "(string \<times> json) list"

text \<open>\<^verbatim>\<open>{ type: "function", ...t.schema }\<close>: a \<^verbatim>\<open>type\<close> of the schema wins.\<close>

definition tool_entry :: "tool \<Rightarrow> json" where
  "tool_entry t =
     JObj ((''type'', (case map_of (schema t) ''type'' of Some v \<Rightarrow> v | None \<Rightarrow> JStr ''function''))
           # filter (\<lambda>(k, v). k \<noteq> ''type'') (schema t))"

text \<open>
  The message sent at the end of \<^verbatim>\<open>connect\<close>. \<^verbatim>\<open>tools\<close> is an optional
  parameter of the hook; \<^verbatim>\<open>JSON.stringify\<close> leaves out a member that is
  \<^verbatim>\<open>undefined\<close>.
\<close>

definition session_update :: "string \<Rightarrow> tool list option \<Rightarrow> json" where
  "session_update initialInstructions tools =
     JObj [(''type'', JStr ''session.update''),
           (''session'', JObj ((''instructions'', JStr initialInstructions) #
              (case tools of None \<Rightarrow> [] | Some ts \<Rightarrow> [(''tools'', JArr (map tool_entry ts))])))]"

text \<open>
  The page registers one tool, \<^verbatim>\<open>set_memory\<close> (the descriptions are shortened here);
  its handler is
  \<^verbatim>\<open>async fn({ key, value }: { key: string; value: string }) {
  setMemoryKv((prev) => ({ ...prev, [key]: value }));
}\<close>
\<close>

definition set_memory_schema :: "(string \<times> json) list" where
  "set_memory_schema =
     [(''name'', JStr ''set_memory''),
      (''description'', JStr ''Saves important data about the user into memory.''),
      (''parameters'', JObj
         [(''type'', JStr ''object''),
          (''properties'', JObj
             [(''key'', JObj [(''type'', JStr ''string'')]),
              (''value'', JObj [(''type'', JStr ''string'')])]),
          (''required'', JArr [JStr ''key'', JStr ''value''])])]"

definition console_tools :: "tool list" where
  "console_tools = [\<lparr>schema = set_memory_schema\<rparr>]"

definition set_memory_fn :: "string \<Rightarrow> string \<Rightarrow> world \<Rightarrow> world" where
  "set_memory_fn key val w = w\<lparr>memoryKv := (memoryKv w)(key \<mapsto> JStr val)\<rparr>"

subsection \<open>connect\<close>

text \<open>
  What the environment answers to one call of \<^verbatim>\<open>connect\<close>, one field per awaited
  promise, \<open>Inl\<close> (or \<open>Some\<close>) when the promise rejects:
  the credential request and its \<^verbatim>\<open>response.ok\<close>, the parsed body of the response,
  the microphone stream (its number of tracks), the offer, whether
  \<^verbatim>\<open>setLocalDescription\<close> fails, the negotiation request and its \<^verbatim>\<open>ok\<close>, the
  answer text, whether \<^verbatim>\<open>setRemoteDescription\<close> fails; and whether the channel's
  \<^verbatim>\<open>open\<close> event has come by the time \<^verbatim>\<open>connect\<close> tests \<^verbatim>\<open>dc.readyState\<close>.
\<close>

record env =
  sessionFetch :: "error + bool"
  sessionJson :: "error + json"
  userMedia :: "error + nat"
  createOffer :: "error + string"
  localDescriptionFails :: "error option"
  sdpFetch :: "error + bool"
  sdpText :: "error + string"
  remoteDescriptionFails :: "error option"
  channelOpened :: bool

text \<open>
  The second half of the \<^verbatim>\<open>try\<close> block, from \<^verbatim>\<open>pc.createOffer()\<close> on, for the
  connection \<open>pc\<close> and channel \<open>dc\<close> the first half created. An exception leaves with
  the state reached so far.
\<close>

definition negotiate :: "env \<Rightarrow> string \<Rightarrow> tool list option \<Rightarrow> nat \<Rightarrow> nat \<Rightarrow> world \<Rightarrow> outcome" where
  "negotiate e initialInstructions tools pc dc w =
     (case createOffer e of
        Inl err \<Rightarrow> (Some err, w)
      | Inr offer \<Rightarrow>
     (case localDescriptionFails e of
        Some err \<Rightarrow> (Some err, w)
      | None \<Rightarrow>
     let w1 = setLocalDescription pc offer w in
     (case sdpFetch e of
        Inl err \<Rightarrow> (Some err, w1)
      | Inr ok \<Rightarrow>
     if \<not> ok then (Some (Error ''Failed to establish WebRTC connection''), w1)
     else
     (case sdpText e of
        Inl err \<Rightarrow> (Some err, w1)
      | Inr answer \<Rightarrow>
     (case remoteDescriptionFails e of
        Some err \<Rightarrow> (Some err, w1)
      | None \<Rightarrow>
     let w2 = (setRemoteDescription pc answer w1)\<lparr>isConnected := True\<rparr>;
         w3 = (if channelOpened e then dc_open dc w2 else w2)
     in if channel_state w3 dc = Some Open
        then (None, dc_send dc (session_update initialInstructions tools) w3)
        else (None, w3))))))"

text \<open>
  The \<^verbatim>\<open>try\<close> block from the point where the credential request has resolved:
  the \<^verbatim>\<open>response.ok\<close> test, the credential, then the transport, the channel and the
  microphone (whose failure is caught and logged), then the negotiation.
\<close>

definition connect_try :: "env \<Rightarrow> string \<Rightarrow> tool list option \<Rightarrow> world \<Rightarrow> outcome" where
  "connect_try e initialInstructions tools w =
     (case sessionFetch e of
        Inl err \<Rightarrow> (Some err, w)
      | Inr ok \<Rightarrow>
     if \<not> ok then (Some (Error ''Failed to get session token''), w)
     else
     (case sessionJson e of
        Inl err \<Rightarrow> (Some err, w)
      | Inr data \<Rightarrow>
     (case client_secret_value data of
        Inl err \<Rightarrow> (Some err, w)
      | Inr ephemeralKey \<Rightarrow>
     let (pc, w1) = new_RTCPeerConnection w;
         w2 = w1\<lparr>peerConnectionRef := Some pc\<rparr>;
         (dc, w3) = createDataChannel pc ''oai-events'' w2;
         w4 = w3\<lparr>dataChannelRef := Some dc\<rparr>;
         w5 = (case userMedia e of Inl err \<Rightarrow> w4 | Inr k \<Rightarrow> addTracks pc k w4)
     in negotiate e initialInstructions tools pc dc w5)))"

text \<open>
  \<^verbatim>\<open>connect\<close> is an \<^verbatim>\<open>async\<close> function. Its first statement is the guard
  \<^verbatim>\<open>if (peerConnectionRef.current) return;\<close>; a call that passes the guard issues
  the credential request and is suspended at \<^verbatim>\<open>await fetch(...)\<close>, having changed
  nothing. \<open>connect_begin\<close> says whether a call passes the guard; \<open>connect_resume\<close> is
  the rest of the call, run when the request has resolved:
  the \<^verbatim>\<open>try\<close> block and, for an exception, the handler
  \<^verbatim>\<open>catch (error) { console.error("Connection error:", error); disconnect(); }\<close>.
  \<open>connect\<close> is a call that nothing interleaves with.
\<close>

definition connect_begin :: "world \<Rightarrow> bool" where
  "connect_begin w = (peerConnectionRef w = None)"

definition connect_resume :: "env \<Rightarrow> string \<Rightarrow> tool list option \<Rightarrow> world \<Rightarrow> world" where
  "connect_resume e initialInstructions tools w =
     (case connect_try e initialInstructions tools w of
        (None, w') \<Rightarrow> w'
      | (Some err, w') \<Rightarrow> disconnect w')"

definition connect :: "env \<Rightarrow> string \<Rightarrow> tool list option \<Rightarrow> world \<Rightarrow> world" where
  "connect e initialInstructions tools w =
     (if connect_begin w then connect_resume e initialInstructions tools w else w)"

text \<open>
  Calls of \<^verbatim>\<open>connect\<close> on the event loop. Two things happen, in any order the
  caller and the network choose: \<^verbatim>\<open>connect()\<close> is called, and the credential request
  of a waiting call resolves (with the environment's answers for the rest of that call).
  The state of the loop is the state of the hook and the number of calls waiting at
  \<^verbatim>\<open>await fetch(...)\<close>. A resolution with no call waiting does not occur; the model
  leaves the state as it is.
\<close>

datatype happening = ConnectCalled | CredentialResolved env

fun happen :: "string \<Rightarrow> tool list option \<Rightarrow> happening \<Rightarrow> world \<times> nat \<Rightarrow> world \<times> nat" where
  "happen initialInstructions tools ConnectCalled (w, waiting) =
     (if connect_begin w then (w, Suc waiting) else (w, waiting))"
| "happen initialInstructions tools (CredentialResolved e) (w, waiting) =
     (if waiting = 0 then (w, waiting)
      else (connect_resume e initialInstructions tools w, waiting - 1))"

definition run :: "string \<Rightarrow> tool list option \<Rightarrow> happening list \<Rightarrow> world \<Rightarrow> world \<times> nat" where
  "run initialInstructions tools hs w = fold (happen initialInstructions tools) hs (w, 0)"

text \<open>An environment in which every step of \<^verbatim>\<open>connect\<close> succeeds, with one microphone track.\<close>

definition env_ok :: env where
  "env_ok =
     \<lparr>sessionFetch = Inr True,
      sessionJson = Inr (JObj [(''client_secret'', JObj [(''value'', JStr ''ek_123'')])]),
      userMedia = Inr 1,
      createOffer = Inr ''offer'',
      localDescriptionFails = None,
      sdpFetch = Inr True,
      sdpText = Inr ''answer'',
      remoteDescriptionFails = None,
      channelOpened = False\<rparr>"

subsection \<open>Sample inputs\<close>

text \<open>
  The inbound message of the specification's example, as the channel delivers it:
  \<^verbatim>\<open>{"type":"response.function_call_arguments.done","name":"set_memory",
 "arguments":"{\"key\":\"city\",\"value\":\"nyc\"}"}\<close>
  (on one line), and the event it decodes to.
\<close>

definition escaped :: "string \<Rightarrow> string" where
  "escaped s = [CHR 0x5C, CHR 0x22] @ s @ [CHR 0x5C, CHR 0x22]"

definition call_payload :: string where
  \<open>call_payload =
     ''{"type":"response.function_call_arguments.done","name":"set_memory","arguments":"{'' @
     escaped ''key'' @ '':'' @ escaped ''city'' @ '','' @
     escaped ''value'' @ '':'' @ escaped ''nyc'' @ ''}"}''\<close>

definition call_event :: json where
  \<open>call_event =
     JObj [(''type'', JStr ''response.function_call_arguments.done''),
           (''name'', JStr ''set_memory''),
           (''arguments'', JStr ''{"key":"city","value":"nyc"}'')]\<close>

text \<open>
  \<^verbatim>\<open>JSON.parse\<close> on the payloads used below: the message above, and a text that is
  not JSON.
\<close>

definition sample_parse :: "string \<Rightarrow> json option" where
  "sample_parse data =
     (if data = call_payload then Some call_event
      else if data = ''not json'' then None
      else None)"

text \<open>
  A session on the page: connected in \<open>env_ok\<close> with the page's tools, one
  microphone track attached, and the channel open since.
\<close>

definition page_session :: world where
  "page_session = connect env_ok ''instructions'' (Some console_tools) (initial ''2025-01-01'')"

definition page_session_open :: world where
  "page_session_open = dc_open 0 page_session"

section \<open>Properties of the signal normalizer\<close>

subsection \<open>Amplitude normalization\<close>

lemma normalizeSample_mono: "x \<le> y \<Longrightarrow> normalizeSample x \<le> normalizeSample y"
  unfolding normalizeSample_def Let_def minDb_def maxDb_def
  by (intro power_mono divide_right_mono) auto

lemma normalizeSample_low: "x \<le> -100 \<Longrightarrow> normalizeSample x = 0"
  by (simp add: normalizeSample_def minDb_def maxDb_def Let_def max_def min_def)

lemma normalizeSample_high: "-30 \<le> x \<Longrightarrow> normalizeSample x = 1"
  by (simp add: normalizeSample_def minDb_def maxDb_def Let_def max_def min_def)

lemma normalizeSample_mid:
  "-100 \<le> x \<Longrightarrow> x \<le> -30 \<Longrightarrow> normalizeSample x = ((x - (-100)) / 70) ^ 2"
  by (simp add: normalizeSample_def minDb_def maxDb_def Let_def max_def min_def)

lemma normalizeSample_range: "0 \<le> normalizeSample x \<and> normalizeSample x \<le> 1"
proof
  show "0 \<le> normalizeSample x" by (simp add: normalizeSample_def Let_def)
  show "normalizeSample x \<le> 1"
  proof (cases "x \<le> -30")
    case True
    then have "normalizeSample x \<le> normalizeSample (-30)" by (rule normalizeSample_mono)
    then show ?thesis by (simp add: normalizeSample_high)
  next
    case False
    then show ?thesis by (simp add: normalizeSample_high)
  qed
qed

text \<open>
  Claim C8. \<^verbatim>\<open>normalizeFrequencyData\<close> normalizes each sample on its own: a sample at
  or below \<open>-100\<close> gives \<open>0\<close>, one at or above \<open>-30\<close> gives \<open>1\<close>, one in between gives
  \<open>((db - (-100)) / 70)\<^sup>2\<close>; every output lies in \<open>[0, 1]\<close>; and a larger sample never
  gives a smaller output (for any two samples, so also for two within \<open>[-100, -30]\<close>).
\<close>

theorem normalizeFrequencyData_monotone_clamped:
  "length (normalizeFrequencyData data) = length data \<and>
   (\<forall>i<length data.
      (data ! i \<le> -100 \<longrightarrow> normalizeFrequencyData data ! i = 0) \<and>
      (-30 \<le> data ! i \<longrightarrow> normalizeFrequencyData data ! i = 1) \<and>
      (-100 \<le> data ! i \<and> data ! i \<le> -30 \<longrightarrow>
         normalizeFrequencyData data ! i = ((data ! i - (-100)) / 70) ^ 2) \<and>
      0 \<le> normalizeFrequencyData data ! i \<and> normalizeFrequencyData data ! i \<le> 1) \<and>
   (\<forall>i<length data. \<forall>j<length data.
      data ! i < data ! j \<longrightarrow> normalizeFrequencyData data ! i \<le> normalizeFrequencyData data ! j)"
  using normalizeSample_range
  by (simp add: normalizeFrequencyData_def normalizeSample_low normalizeSample_high
      normalizeSample_mid normalizeSample_mono)

theorem normalizeFrequencyData_monotone_clamped_witness:
  "normalizeFrequencyData [-120, -65, -30, 0] ! 0 = 0 \<and>
   normalizeFrequencyData [-120, -65, -30, 0] ! 1 = 1 / 4 \<and>
   normalizeFrequencyData [-120, -65, -30, 0] ! 2 = 1 \<and>
   normalizeFrequencyData [-120, -65, -30, 0] ! 3 = 1 \<and>
   normalizeFrequencyData [-120, -65, -30, 0] ! 0 \<le> normalizeFrequencyData [-120, -65, -30, 0] ! 1"
proof -
  have i: "(0::nat) < length [-120, -65, -30, 0::real]" "(1::nat) < length [-120, -65, -30, 0::real]"
     "(2::nat) < length [-120, -65, -30, 0::real]" "(3::nat) < length [-120, -65, -30, 0::real]"
    by simp_all
  have d: "[-120, -65, -30, 0::real] ! 0 \<le> -100"
    "-100 \<le> [-120, -65, -30, 0::real] ! 1 \<and> [-120, -65, -30, 0::real] ! 1 \<le> -30"
    "-30 \<le> [-120, -65, -30, 0::real] ! 2" "-30 \<le> [-120, -65, -30, 0::real] ! 3"
    "[-120, -65, -30, 0::real] ! 0 < [-120, -65, -30, 0::real] ! 1"
    by simp_all
  have sq: "(([-120, -65, -30, 0::real] ! 1 - (-100)) / 70) ^ 2 = 1 / 4"
    by (simp add: power2_eq_square)
  from normalizeFrequencyData_monotone_clamped[of "[-120, -65, -30, 0]"] i d
  show ?thesis unfolding sq[symmetric] by blast
qed

subsection \<open>Downsampling by averaging\<close>






lemma finite_members [simp]: "finite (members m n k b)"
  by (simp add: members_def)

lemma not_in_members [simp]: "k \<notin> members m n k b"
  by (simp add: members_def)







text \<open>The same call, evaluated: the buckets are \<open>{0, 1}\<close> and \<open>{2, 3}\<close>.\<close>

lemma averaging_resample_example:
  "fst (normalizeArray Map.empty 0 [1, -3, 2, 4] 2 False False) = [Some 2, Some 3]"
  by (simp add: normalizeArray_def normalizeArray_compute_def upt_rec downsample_step_def
      bucket_index_def js_get_def js_set_def js_div_def)

subsection \<open>Upsampling by interpolation\<close>





section \<open>Properties of the session\<close>

lemmas connect_defs =
  connect_def connect_begin_def connect_resume_def connect_try_def negotiate_def
  client_secret_value_def new_RTCPeerConnection_def createDataChannel_def addTracks_def
  setLocalDescription_def setRemoteDescription_def channel_state_def dc_open_def dc_send_def

text \<open>The sample session, computed.\<close>

lemma page_session_eq:
  "page_session =
     \<lparr>peerConnectionRef = Some 0, dataChannelRef = Some 0, isConnected = True, isMuted = False,
      realtimeEvents = [],
      memoryKv = [''userName'' \<mapsto> JStr ''swyx'', ''todaysDate'' \<mapsto> JStr ''2025-01-01''],
      peerConnections = [\<lparr>pc_closed = False, senders = [0], localDescription = Some ''offer'',
          remoteDescription = Some ''answer''\<rparr>],
      dataChannels = [\<lparr>label = ''oai-events'', owner = 0, readyState = Connecting, sent = []\<rparr>],
      tracks = [\<lparr>enabled = True\<rparr>]\<rparr>"
  by (simp add: page_session_def connect_defs env_ok_def initial_def Let_def)

lemma page_session_open_eq:
  "page_session_open =
     \<lparr>peerConnectionRef = Some 0, dataChannelRef = Some 0, isConnected = True, isMuted = False,
      realtimeEvents = [],
      memoryKv = [''userName'' \<mapsto> JStr ''swyx'', ''todaysDate'' \<mapsto> JStr ''2025-01-01''],
      peerConnections = [\<lparr>pc_closed = False, senders = [0], localDescription = Some ''offer'',
          remoteDescription = Some ''answer''\<rparr>],
      dataChannels = [\<lparr>label = ''oai-events'', owner = 0, readyState = Open, sent = []\<rparr>],
      tracks = [\<lparr>enabled = True\<rparr>]\<rparr>"
  by (simp add: page_session_open_def page_session_eq dc_open_def)

subsection \<open>Inbound messages\<close>

text \<open>
  Whatever the message, the listener changes the event sequence only: the memory, which
  the one registered handler would write, and every other part of the state stay as they
  were.
\<close>

lemma onmessage_changes_events_only:
  "snd (onmessage JSON_parse now data w) =
     w\<lparr>realtimeEvents := realtimeEvents (snd (onmessage JSON_parse now data w))\<rparr>"
  by (simp add: onmessage_def split: option.splits)

lemma onmessage_memoryKv: "memoryKv (snd (onmessage JSON_parse now data w)) = memoryKv w"
  by (simp add: onmessage_def split: option.splits)

text \<open>
  Claim C1, at the specification's example. The channel is open, \<^verbatim>\<open>set_memory\<close> is
  registered, and the message is a \<^verbatim>\<open>response.function_call_arguments.done\<close> event
  named \<^verbatim>\<open>set_memory\<close> with arguments \<^verbatim>\<open>{"key":"city","value":"nyc"}\<close>. The
  listener records the event and returns; the handler is not run: the memory has no entry
  \<^verbatim>\<open>city\<close> afterwards, where one run of the handler on these arguments would have
  stored \<^verbatim>\<open>nyc\<close> there.
\<close>

theorem function_call_event_invokes_no_handler:
  \<open>sample_parse call_payload = Some call_event \<and>
   js_member call_event ''type'' = Inr (Some (JStr ''response.function_call_arguments.done'')) \<and>
   js_member call_event ''name'' = Inr (Some (JStr ''set_memory'')) \<and>
   js_member call_event ''arguments'' = Inr (Some (JStr ''{"key":"city","value":"nyc"}'')) \<and>
   map_of (schema (hd console_tools)) ''name'' = Some (JStr ''set_memory'') \<and>
   channel_is_open page_session_open \<and>
   onmessage sample_parse ''t1'' call_payload page_session_open =
     (None, page_session_open\<lparr>realtimeEvents :=
        [\<lparr>time = ''t1'', source = server, event = call_event\<rparr>]\<rparr>) \<and>
   memoryKv (snd (onmessage sample_parse ''t1'' call_payload page_session_open)) ''city'' = None \<and>
   memoryKv (set_memory_fn ''city'' ''nyc'' page_session_open) ''city'' = Some (JStr ''nyc'')\<close>
  by (simp add: sample_parse_def onmessage_def page_session_open_eq call_event_def
      console_tools_def set_memory_schema_def channel_is_open_def channel_state_def
      set_memory_fn_def)

text \<open>
  Claim C3, as first stated, asks that no exception leave the listener for a payload
  that is not JSON. On the open sample session the payload \<^verbatim>\<open>not json\<close> makes the
  listener end with a \<^verbatim>\<open>SyntaxError\<close>.
\<close>

theorem malformed_payload_escapes_listener:
  "sample_parse ''not json'' = None \<and>
   onmessage sample_parse ''t1'' ''not json'' page_session_open =
     (Some SyntaxError, page_session_open)"
  by (simp add: sample_parse_def onmessage_def call_payload_def)

text \<open>
  Claim C3, amended. For every payload that \<^verbatim>\<open>JSON.parse\<close> rejects, the
  \<^verbatim>\<open>SyntaxError\<close> leaves the listener, which has no handler for it; the message is not
  recorded, and the state (connection, channel, event sequence and all the rest) is the
  state before the message.
\<close>

theorem onmessage_malformed_throws:
  "JSON_parse data = None \<Longrightarrow> onmessage JSON_parse now data w = (Some SyntaxError, w)"
  by (simp add: onmessage_def)

theorem onmessage_malformed_throws_witness:
  "sample_parse ''not json'' = None \<and>
   onmessage sample_parse ''t2'' ''not json'' page_session = (Some SyntaxError, page_session)"
proof -
  have h: "sample_parse ''not json'' = None"
    by (simp add: sample_parse_def call_payload_def)
  from onmessage_malformed_throws[of sample_parse "''not json''" "''t2''" page_session, OF h] h
  show ?thesis by simp
qed

subsection \<open>Mute\<close>

lemma setIsMuted_tracks:
  "tracks (setIsMuted b w) = tracks w \<and> peerConnections (setIsMuted b w) = peerConnections w"
  by (simp add: setIsMuted_def)

text \<open>
  Claim C2, on the connected sample session, which has one local audio track, enabled and
  attached to the transport. Setting the mute flag sets the flag and nothing else: the
  track is still enabled.
\<close>

theorem mute_flag_leaves_tracks_enabled:
  "isConnected page_session \<and>
   tracks page_session = [\<lparr>enabled = True\<rparr>] \<and>
   senders (peerConnections page_session ! 0) = [0] \<and>
   setIsMuted True page_session = page_session\<lparr>isMuted := True\<rparr> \<and>
   isMuted (setIsMuted True page_session) \<and>
   tracks (setIsMuted True page_session) = [\<lparr>enabled = True\<rparr>]"
  by (simp add: setIsMuted_def page_session_eq)

subsection \<open>sendEvent\<close>

text \<open>\<^verbatim>\<open>sendEvent\<close> has no \<^verbatim>\<open>throw\<close>: every call returns normally.\<close>

lemma sendEvent_returns: "fst (sendEvent now ev w) = None"
  by (simp add: sendEvent_def split: option.splits)

lemma sendEvent_open:
  "channel_is_open w \<Longrightarrow>
   realtimeEvents (snd (sendEvent now ev w)) =
     realtimeEvents w @ [\<lparr>time = now, source = client, event = ev\<rparr>]"
  by (auto simp add: channel_is_open_def sendEvent_def dc_send_def split: option.splits)

text \<open>
  Claim C4, as first stated, asks that a send on a channel that is not open surface an
  error. The channel of the sample session is still connecting; sending
  \<^verbatim>\<open>response.create\<close> there returns normally, with no error and the state as it was.
\<close>

theorem sendEvent_closed_reports_nothing:
  "\<not> channel_is_open page_session \<and>
   sendEvent ''t1'' (JObj [(''type'', JStr ''response.create'')]) page_session =
     (None, page_session)"
  by (simp add: channel_is_open_def sendEvent_def page_session_eq channel_state_def)

text \<open>
  Claim C4, amended. For every event, \<^verbatim>\<open>sendEvent\<close> called while the channel is not
  open (no channel, or one whose state is not \<^verbatim>\<open>open\<close>) appends nothing to the event
  sequence, sends nothing, and returns normally without reporting anything: the state is
  unchanged.
\<close>

theorem sendEvent_closed_silent:
  "\<not> channel_is_open w \<Longrightarrow> sendEvent now ev w = (None, w)"
  by (simp add: channel_is_open_def sendEvent_def split: option.splits)

theorem sendEvent_closed_silent_witness:
  "\<not> channel_is_open (initial ''2025-01-01'') \<and>
   sendEvent ''t1'' JNull (initial ''2025-01-01'') = (None, initial ''2025-01-01'')"
proof -
  have h: "\<not> channel_is_open (initial ''2025-01-01'')"
    by (simp add: channel_is_open_def initial_def)
  from sendEvent_closed_silent[of "initial ''2025-01-01''" "''t1''" JNull, OF h] h
  show ?thesis by simp
qed

subsection \<open>disconnect\<close>

lemma map_update_same: "f y = f (xs ! i) \<Longrightarrow> map f (xs[i := y]) = map f xs"
proof -
  assume "f y = f (xs ! i)"
  then have "map f (xs[i := y]) = (map f xs)[i := f (xs ! i)]" by (simp add: map_update)
  also have "\<dots> = map f xs"
    by (cases "i < length xs") (simp_all add: list_update_same_conv list_update_beyond)
  finally show ?thesis .
qed

lemma disconnect_handles:
  "peerConnectionRef (disconnect w) = None \<and> dataChannelRef (disconnect w) = None \<and>
   \<not> isConnected (disconnect w)"
  by (simp add: disconnect_def Let_def)

lemma disconnect_lengths:
  "length (peerConnections (disconnect w)) = length (peerConnections w) \<and>
   length (dataChannels (disconnect w)) = length (dataChannels w)"
  by (simp add: disconnect_def Let_def dc_close_def pc_close_def split: option.splits)

lemma disconnect_frame_eq:
  "disconnect w =
     w\<lparr>peerConnectionRef := None, dataChannelRef := None, isConnected := False,
       peerConnections := peerConnections (disconnect w),
       dataChannels := dataChannels (disconnect w)\<rparr>"
  by (simp add: disconnect_def Let_def dc_close_def pc_close_def split: option.splits)

lemma disconnect_peerConnections:
  "peerConnections (disconnect w) =
     (case peerConnectionRef w of
        None \<Rightarrow> peerConnections w
      | Some pc \<Rightarrow> (peerConnections w)[pc := (peerConnections w ! pc)\<lparr>pc_closed := True\<rparr>])"
  by (simp add: disconnect_def Let_def dc_close_def pc_close_def split: option.splits)

lemma disconnect_dataChannels:
  "dataChannels (disconnect w) =
     (let cs = (case dataChannelRef w of
                  None \<Rightarrow> dataChannels w
                | Some dc \<Rightarrow> (dataChannels w)[dc := (dataChannels w ! dc)\<lparr>readyState := Closed\<rparr>])
      in case peerConnectionRef w of
           None \<Rightarrow> cs
         | Some pc \<Rightarrow> map (\<lambda>c. if owner c = pc then c\<lparr>readyState := Closed\<rparr> else c) cs)"
  by (simp add: disconnect_def Let_def dc_close_def pc_close_def split: option.splits)

lemma dc_close_channels:
  "map label (dataChannels (dc_close dc w)) = map label (dataChannels w) \<and>
   map owner (dataChannels (dc_close dc w)) = map owner (dataChannels w) \<and>
   map sent (dataChannels (dc_close dc w)) = map sent (dataChannels w)"
  by (simp add: dc_close_def map_update_same)

lemma pc_close_channels:
  "map label (dataChannels (pc_close pc w)) = map label (dataChannels w) \<and>
   map owner (dataChannels (pc_close pc w)) = map owner (dataChannels w) \<and>
   map sent (dataChannels (pc_close pc w)) = map sent (dataChannels w)"
  by (simp add: pc_close_def comp_def if_distrib cong: if_cong)

lemma disconnect_channels:
  "map label (dataChannels (disconnect w)) = map label (dataChannels w) \<and>
   map owner (dataChannels (disconnect w)) = map owner (dataChannels w) \<and>
   map sent (dataChannels (disconnect w)) = map sent (dataChannels w)"
  by (simp add: disconnect_def Let_def dc_close_channels pc_close_channels split: option.splits)

lemma disconnect_isMuted: "isMuted (disconnect w) = isMuted w"
  by (simp add: disconnect_def Let_def dc_close_def pc_close_def split: option.splits)

lemma connect_try_isMuted: "isMuted (snd (connect_try e i ts w)) = isMuted w"
  by (simp add: connect_try_def negotiate_def Let_def new_RTCPeerConnection_def
      createDataChannel_def addTracks_def setLocalDescription_def setRemoteDescription_def
      dc_open_def dc_send_def
      split: sum.splits option.splits prod.splits)

lemma connect_isMuted: "isMuted (connect e i ts w) = isMuted w"
  using connect_try_isMuted[of e i ts w]
  by (auto simp add: connect_def connect_resume_def disconnect_isMuted
      split: prod.splits option.splits)

text \<open>
  Claim C10. Of the state the hook and the page keep, \<^verbatim>\<open>disconnect\<close> changes the two
  handles (to \<^verbatim>\<open>null\<close>) and the connectivity flag (to \<^verbatim>\<open>false\<close>) and nothing else:
  the mute flag, the events, the memory and the tracks are as before. Of the browser
  objects it closes the transport the handle named, changing no other transport, and
  closes the channel the handle named and the channels of that transport, each channel
  keeping its label, its transport and what was sent on it. So the
  mute flag after a \<^verbatim>\<open>disconnect\<close>, and after a \<^verbatim>\<open>connect\<close> that follows it, is
  the one set before.
\<close>

theorem disconnect_frame:
  "disconnect w =
     w\<lparr>peerConnectionRef := None, dataChannelRef := None, isConnected := False,
       peerConnections := peerConnections (disconnect w),
       dataChannels := dataChannels (disconnect w)\<rparr> \<and>
   peerConnections (disconnect w) =
     (case peerConnectionRef w of
        None \<Rightarrow> peerConnections w
      | Some pc \<Rightarrow> (peerConnections w)[pc := (peerConnections w ! pc)\<lparr>pc_closed := True\<rparr>]) \<and>
   dataChannels (disconnect w) =
     (let cs = (case dataChannelRef w of
                  None \<Rightarrow> dataChannels w
                | Some dc \<Rightarrow> (dataChannels w)[dc := (dataChannels w ! dc)\<lparr>readyState := Closed\<rparr>])
      in case peerConnectionRef w of
           None \<Rightarrow> cs
         | Some pc \<Rightarrow> map (\<lambda>c. if owner c = pc then c\<lparr>readyState := Closed\<rparr> else c) cs) \<and>
   map label (dataChannels (disconnect w)) = map label (dataChannels w) \<and>
   map owner (dataChannels (disconnect w)) = map owner (dataChannels w) \<and>
   map sent (dataChannels (disconnect w)) = map sent (dataChannels w) \<and>
   isMuted (disconnect w) = isMuted w \<and>
   isMuted (connect e initialInstructions tools (disconnect w)) = isMuted w"
  using disconnect_frame_eq[of w] disconnect_peerConnections[of w] disconnect_channels[of w]
    disconnect_dataChannels[of w]
  by (simp add: disconnect_isMuted connect_isMuted)

subsection \<open>connect\<close>

text \<open>
  Claim C5. When the credential request resolves with a response that is not ok, the
  rest of the call ends in \<^verbatim>\<open>disconnect\<close>: the session is not connected, both handles
  are \<^verbatim>\<open>null\<close>, and no transport and no channel has been created. This holds in
  whatever state the call resumes; a call that passed the guard and ran uninterrupted is
  one such.
\<close>

theorem credential_failure_idle:
  assumes "sessionFetch e = Inr False"
  shows "connect_resume e initialInstructions tools w = disconnect w \<and>
         \<not> isConnected (connect_resume e initialInstructions tools w) \<and>
         peerConnectionRef (connect_resume e initialInstructions tools w) = None \<and>
         dataChannelRef (connect_resume e initialInstructions tools w) = None \<and>
         length (peerConnections (connect_resume e initialInstructions tools w)) =
           length (peerConnections w) \<and>
         length (dataChannels (connect_resume e initialInstructions tools w)) =
           length (dataChannels w) \<and>
         (connect_begin w \<longrightarrow> connect e initialInstructions tools w = disconnect w)"
proof -
  have r: "connect_resume e initialInstructions tools w = disconnect w"
    using assms by (simp add: connect_resume_def connect_try_def)
  show ?thesis
    unfolding r using disconnect_handles[of w] disconnect_lengths[of w]
    by (simp add: connect_def r)
qed

theorem credential_failure_idle_witness:
  "sessionFetch (env_ok\<lparr>sessionFetch := Inr False\<rparr>) = Inr False \<and>
   connect_begin (initial ''2025-01-01'') \<and>
   connect (env_ok\<lparr>sessionFetch := Inr False\<rparr>) ''instructions'' (Some console_tools)
     (initial ''2025-01-01'') = initial ''2025-01-01'' \<and>
   peerConnections (connect_resume (env_ok\<lparr>sessionFetch := Inr False\<rparr>) ''instructions''
      (Some console_tools) (initial ''2025-01-01'')) = []"
proof -
  have h: "sessionFetch (env_ok\<lparr>sessionFetch := Inr False\<rparr>) = Inr False" by simp
  have d: "disconnect (initial ''2025-01-01'') = initial ''2025-01-01''"
    by (simp add: disconnect_def initial_def)
  have b: "connect_begin (initial ''2025-01-01'')" by (simp add: connect_begin_def initial_def)
  from credential_failure_idle[OF h, of "''instructions''" "Some console_tools"
      "initial ''2025-01-01''"] h b d
  show ?thesis by (simp add: initial_def)
qed

text \<open>A call made while a transport handle is held returns at the guard: nothing changes.\<close>

lemma connect_held_noop:
  "peerConnectionRef w \<noteq> None \<Longrightarrow> connect e initialInstructions tools w = w"
  by (auto simp add: connect_def connect_begin_def)

lemma connect_twice_in_sequence:
  "peerConnectionRef (connect e initialInstructions tools w) \<noteq> None \<Longrightarrow>
   connect e' initialInstructions' tools' (connect e initialInstructions tools w) =
     connect e initialInstructions tools w"
  by (rule connect_held_noop)

text \<open>One call alone is a call and the resolution of its request.\<close>

lemma run_single_call:
  "run initialInstructions tools [ConnectCalled, CredentialResolved e] w =
     (connect e initialInstructions tools w, 0)"
  by (simp add: run_def connect_def)

text \<open>
  Two calls in sequence, the second made after the first has run to its end: one
  transport, no call waiting.
\<close>

lemma sequential_connects_one_transport:
  "run ''instructions'' (Some console_tools)
     [ConnectCalled, CredentialResolved env_ok, ConnectCalled] (initial ''2025-01-01'') =
     (page_session, 0) \<and>
   live_transports page_session = 1"
proof -
  have b0: "connect_begin (initial ''2025-01-01'')"
    by (simp add: connect_begin_def initial_def)
  have r: "connect_resume env_ok ''instructions'' (Some console_tools) (initial ''2025-01-01'') =
           page_session"
    using b0 by (simp add: page_session_def connect_def)
  have b1: "\<not> connect_begin page_session"
    by (simp add: connect_begin_def page_session_eq)
  have "live_transports page_session = 1"
    by (simp add: live_transports_def page_session_eq)
  then show ?thesis by (simp add: run_def b0 b1 r)
qed

text \<open>
  Claim C6, for two calls that overlap. On the initial state the guard lets a call
  through, and the call changes nothing before it is suspended at the credential
  request; so a second call made while the first waits passes the guard too. When both
  requests have resolved and both calls have run to their end, two transports have been
  created and neither is closed; the handle names the second.
\<close>

theorem overlapping_connects_two_transports:
  "run ''instructions'' (Some console_tools) [ConnectCalled, ConnectCalled] (initial ''2025-01-01'') =
     (initial ''2025-01-01'', 2) \<and>
   snd (run ''instructions'' (Some console_tools)
     [ConnectCalled, ConnectCalled, CredentialResolved env_ok, CredentialResolved env_ok]
     (initial ''2025-01-01'')) = 0 \<and>
   live_transports (fst (run ''instructions'' (Some console_tools)
     [ConnectCalled, ConnectCalled, CredentialResolved env_ok, CredentialResolved env_ok]
     (initial ''2025-01-01''))) = 2 \<and>
   peerConnectionRef (fst (run ''instructions'' (Some console_tools)
     [ConnectCalled, ConnectCalled, CredentialResolved env_ok, CredentialResolved env_ok]
     (initial ''2025-01-01''))) = Some 1"
  by (simp add: run_def connect_begin_def initial_def live_transports_def connect_resume_def
      connect_try_def env_ok_def client_secret_value_def new_RTCPeerConnection_def
      createDataChannel_def addTracks_def negotiate_def setLocalDescription_def
      setRemoteDescription_def channel_state_def Let_def)

end
